theory Spec2Isabelle
  imports Main "HOL-Library.Sublist"
begin

section \<open>The pyvalue tree\<close>

text \<open>
  The mergers of \<^verbatim>\<open>core/merger.py\<close> work on what the YAML loader returns: \<^verbatim>\<open>None\<close>,
  booleans, integers, strings, lists and insertion-ordered dictionaries with string keys.
  A dictionary is an association list in insertion order; Python keeps its keys unique,
  which is the predicate \<open>wf_value\<close> below. Floats and the comment annotations that
  \<^verbatim>\<open>ruamel.yaml\<close> attaches to its containers are not represented: no function modelled
  here reads a comment, and \<^verbatim>\<open>_preserve_comments\<close> changes nothing else.
\<close>

datatype pyvalue =
    VNull
  | VBool bool
  | VInt int
  | VStr string
  | VSeq "pyvalue list"
  | VMap "(string \<times> pyvalue) list"

datatype error =
    AttributeError
  | TypeError
  | KeyError
  | NameError string
  | FileNotFoundError
  | FileExistsError
  | IsADirectoryError
  | NotADirectoryError
  | PermissionError
  | KeyboardInterrupt
  | SystemExit
  | External string

fun wf_value :: "pyvalue \<Rightarrow> bool" where
  "wf_value (VSeq xs) = list_all wf_value xs"
| "wf_value (VMap m) = (distinct (map fst m) \<and> list_all (\<lambda>(k, v). wf_value v) m)"
| "wf_value _ = True"

text \<open>
  Python's \<^verbatim>\<open>==\<close> on these values. \<^verbatim>\<open>bool\<close> is a subclass of \<^verbatim>\<open>int\<close>, so
  \<^verbatim>\<open>True == 1\<close>; lists compare item by item; dictionaries compare without regard to
  order: equal length, and every key of the left one is in the right one with an equal
  value (\<^verbatim>\<open>CommentedMap.__eq__\<close> compares as \<^verbatim>\<open>dict\<close>).
\<close>

fun py_eq :: "pyvalue \<Rightarrow> pyvalue \<Rightarrow> bool"
  and py_eq_seq :: "pyvalue list \<Rightarrow> pyvalue list \<Rightarrow> bool"
  and py_eq_items :: "(string \<times> pyvalue) list \<Rightarrow> (string \<times> pyvalue) list \<Rightarrow> bool"
where
  "py_eq VNull VNull = True"
| "py_eq (VBool a) (VBool b) = (a = b)"
| "py_eq (VBool a) (VInt j) = ((if a then 1 else 0) = j)"
| "py_eq (VInt i) (VBool b) = (i = (if b then 1 else 0))"
| "py_eq (VInt i) (VInt j) = (i = j)"
| "py_eq (VStr s) (VStr t) = (s = t)"
| "py_eq (VSeq xs) (VSeq ys) = py_eq_seq xs ys"
| "py_eq (VMap l) (VMap r) = (length l = length r \<and> py_eq_items l r)"
| "py_eq _ _ = False"
| "py_eq_seq [] [] = True"
| "py_eq_seq (x # xs) (y # ys) = (py_eq x y \<and> py_eq_seq xs ys)"
| "py_eq_seq _ _ = False"
| "py_eq_items [] r = True"
| "py_eq_items ((k, v) # l) r =
     ((case map_of r k of None \<Rightarrow> False | Some w \<Rightarrow> py_eq v w) \<and> py_eq_items l r)"

text \<open>Truthiness, as \<^verbatim>\<open>if x\<close>, \<^verbatim>\<open>x or y\<close> and \<^verbatim>\<open>not x\<close> test it.\<close>

fun truthy :: "pyvalue \<Rightarrow> bool" where
  "truthy VNull = False"
| "truthy (VBool b) = b"
| "truthy (VInt i) = (i \<noteq> 0)"
| "truthy (VStr s) = (s \<noteq> [])"
| "truthy (VSeq xs) = (xs \<noteq> [])"
| "truthy (VMap m) = (m \<noteq> [])"

definition py_or :: "pyvalue \<Rightarrow> pyvalue \<Rightarrow> pyvalue" where
  "py_or a b = (if truthy a then a else b)"

fun is_dict :: "pyvalue \<Rightarrow> bool" where
  "is_dict (VMap m) = True"
| "is_dict _ = False"

fun is_list :: "pyvalue \<Rightarrow> bool" where
  "is_list (VSeq xs) = True"
| "is_list _ = False"

section \<open>Conflicts\<close>

text \<open>
  \<^verbatim>\<open>MergeConflict.__init__\<close> stores the four arguments, sets \<^verbatim>\<open>resolution\<close> to
  \<^verbatim>\<open>None\<close> and then lets \<^verbatim>\<open>_check_auto_resolvable\<close> overwrite it. An absent side is
  \<^verbatim>\<open>None\<close>, here \<open>VNull\<close>.
\<close>

record MergeConflict =
  path :: string
  base_value :: pyvalue
  local_value :: pyvalue
  remote_value :: pyvalue
  resolution :: "string option"
  auto_resolvable :: bool

definition check_auto_resolvable :: "MergeConflict \<Rightarrow> MergeConflict" where
  "check_auto_resolvable c =
     (if py_eq (base_value c) (remote_value c)
      then c\<lparr>resolution := Some ''keep_local'', auto_resolvable := True\<rparr>
      else if py_eq (base_value c) (local_value c)
      then c\<lparr>resolution := Some ''take_remote'', auto_resolvable := True\<rparr>
      else c\<lparr>auto_resolvable := False\<rparr>)"

definition merge_conflict :: "string \<Rightarrow> pyvalue \<Rightarrow> pyvalue \<Rightarrow> pyvalue \<Rightarrow> MergeConflict" where
  "merge_conflict p b l r =
     check_auto_resolvable
       \<lparr>path = p, base_value = b, local_value = l, remote_value = r,
        resolution = None, auto_resolvable = False\<rparr>"

section \<open>The structured merger\<close>

text \<open>
  \<^verbatim>\<open>PreservingYAMLMerger\<close> keeps the conflicts in \<^verbatim>\<open>self.conflicts\<close> and appends to
  it; the model passes that list along. Whatever raises in the source is an \<open>Inl\<close> here:
  \<^verbatim>\<open>base\<close> may be any value (the base document can have another type at a node than
  local and remote), and \<^verbatim>\<open>base.get(key)\<close>, \<^verbatim>\<open>key in base\<close> and \<^verbatim>\<open>base[key]\<close> are
  then applied to a string, a list or a number.
\<close>

definition three_way ::
  "pyvalue \<Rightarrow> pyvalue \<Rightarrow> pyvalue \<Rightarrow> string \<Rightarrow> MergeConflict list \<Rightarrow> pyvalue \<times> MergeConflict list" where
  "three_way base local remote p cs =
     (if \<not> py_eq local remote then
        (if py_eq base local then (remote, cs)
         else if py_eq base remote then (local, cs)
         else (local, cs @ [merge_conflict p base local remote]))
      else (local, cs))"

fun dict_get :: "pyvalue \<Rightarrow> string \<Rightarrow> error + pyvalue" where
  "dict_get (VMap m) key = Inr (case map_of m key of None \<Rightarrow> VNull | Some v \<Rightarrow> v)"
| "dict_get _ key = Inl AttributeError"

fun is_substring :: "string \<Rightarrow> string \<Rightarrow> bool" where
  "is_substring k [] = (k = [])"
| "is_substring k (c # t) = (prefix k (c # t) \<or> is_substring k t)"

fun key_in :: "string \<Rightarrow> pyvalue \<Rightarrow> error + bool" where
  "key_in key (VMap m) = Inr (key \<in> set (map fst m))"
| "key_in key (VStr s) = Inr (is_substring key s)"
| "key_in key (VSeq xs) = Inr (list_ex (\<lambda>x. py_eq x (VStr key)) xs)"
| "key_in key _ = Inl TypeError"

fun subscript :: "pyvalue \<Rightarrow> string \<Rightarrow> error + pyvalue" where
  "subscript (VMap m) key = (case map_of m key of None \<Rightarrow> Inl KeyError | Some v \<Rightarrow> Inr v)"
| "subscript _ key = Inl TypeError"

fun setitem :: "(string \<times> pyvalue) list \<Rightarrow> string \<Rightarrow> pyvalue \<Rightarrow> (string \<times> pyvalue) list" where
  "setitem [] key v = [(key, v)]"
| "setitem ((k, w) # m) key v = (if k = key then (k, v) # m else (k, w) # setitem m key v)"

definition all_keys :: "(string \<times> pyvalue) list \<Rightarrow> (string \<times> pyvalue) list \<Rightarrow> string list" where
  "all_keys local remote =
     foldl (\<lambda>acc key. if key \<in> set acc then acc else acc @ [key]) (map fst local) (map fst remote)"

definition key_path :: "string \<Rightarrow> string \<Rightarrow> string" where
  "key_path p key = (if p \<noteq> [] then p @ ''.'' @ key else key)"

text \<open>
  Named lists: the test, the iteration over \<^verbatim>\<open>base or []\<close>, and the index by name,
  a dictionary comprehension keyed by \<^verbatim>\<open>item.get('name')\<close>: a later item replaces the
  value of an equal key and keeps its place, and a list or a dictionary as a name raises
  (unhashable).
\<close>

definition get_name :: "(string \<times> pyvalue) list \<Rightarrow> pyvalue" where
  "get_name m = (case map_of m ''name'' of None \<Rightarrow> VNull | Some v \<Rightarrow> v)"

definition has_name :: "pyvalue \<Rightarrow> bool" where
  "has_name item = (case item of VMap m \<Rightarrow> ''name'' \<in> set (map fst m) | _ \<Rightarrow> False)"

definition is_named_list :: "pyvalue list \<Rightarrow> bool" where
  "is_named_list lst = (lst \<noteq> [] \<and> list_all is_dict lst \<and> list_all has_name lst)"

fun iter_items :: "pyvalue \<Rightarrow> error + pyvalue list" where
  "iter_items (VSeq xs) = Inr xs"
| "iter_items (VMap m) = Inr (map (\<lambda>(k, v). VStr k) m)"
| "iter_items (VStr s) = Inr (map (\<lambda>c. VStr [c]) s)"
| "iter_items _ = Inl TypeError"

fun hashable :: "pyvalue \<Rightarrow> bool" where
  "hashable (VSeq xs) = False"
| "hashable (VMap m) = False"
| "hashable _ = True"

fun dict_set :: "(pyvalue \<times> pyvalue) list \<Rightarrow> pyvalue \<Rightarrow> pyvalue \<Rightarrow> (pyvalue \<times> pyvalue) list" where
  "dict_set [] k v = [(k, v)]"
| "dict_set ((k', v') # d) k v =
     (if py_eq k' k then (k', v) # d else (k', v') # dict_set d k v)"

fun vlookup :: "(pyvalue \<times> pyvalue) list \<Rightarrow> pyvalue \<Rightarrow> pyvalue option" where
  "vlookup [] k = None"
| "vlookup ((k', v') # d) k = (if py_eq k' k then Some v' else vlookup d k)"

definition item_name :: "pyvalue \<Rightarrow> pyvalue" where
  "item_name item = (case item of VMap m \<Rightarrow> get_name m | _ \<Rightarrow> VNull)"

fun by_name_acc :: "(pyvalue \<times> pyvalue) list \<Rightarrow> pyvalue list \<Rightarrow> error + (pyvalue \<times> pyvalue) list" where
  "by_name_acc acc [] = Inr acc"
| "by_name_acc acc (item # rest) =
     (if is_dict item then
        (if hashable (item_name item)
         then by_name_acc (dict_set acc (item_name item) item) rest
         else Inl TypeError)
      else by_name_acc acc rest)"

definition by_name :: "pyvalue list \<Rightarrow> error + (pyvalue \<times> pyvalue) list" where
  "by_name lst = by_name_acc [] lst"

text \<open>\<^verbatim>\<open>str(name)\<close> inside the f-string of the item path, for the names a set accepts.\<close>

definition digit :: "nat \<Rightarrow> char" where
  "digit n = ''0123456789'' ! n"

fun str_nat :: "nat \<Rightarrow> string" where
  "str_nat n = (if n < 10 then [digit n] else str_nat (n div 10) @ [digit (n mod 10)])"

definition str_int :: "int \<Rightarrow> string" where
  "str_int i = (if i < 0 then ''-'' @ str_nat (nat (- i)) else str_nat (nat i))"

fun str_scalar :: "pyvalue \<Rightarrow> string option" where
  "str_scalar VNull = Some ''None''"
| "str_scalar (VBool b) = Some (if b then ''True'' else ''False'')"
| "str_scalar (VInt i) = Some (str_int i)"
| "str_scalar (VStr s) = Some s"
| "str_scalar _ = None"

lemma map_of_size:
  "map_of m k = Some v \<Longrightarrow> size v < Suc (size_list (size_prod (\<lambda>_. 0) size) m)"
  by (induction m) (auto split: if_splits)

function deep_merge ::
    "pyvalue \<Rightarrow> pyvalue \<Rightarrow> pyvalue \<Rightarrow> string \<Rightarrow> MergeConflict list
      \<Rightarrow> error + pyvalue \<times> MergeConflict list"
  and merge_dicts ::
    "pyvalue \<Rightarrow> (string \<times> pyvalue) list \<Rightarrow> (string \<times> pyvalue) list \<Rightarrow> string \<Rightarrow> MergeConflict list
      \<Rightarrow> error + pyvalue \<times> MergeConflict list"
  and merge_dicts_loop ::
    "string list \<Rightarrow> pyvalue \<Rightarrow> (string \<times> pyvalue) list \<Rightarrow> (string \<times> pyvalue) list \<Rightarrow> string
      \<Rightarrow> (string \<times> pyvalue) list \<Rightarrow> MergeConflict list \<Rightarrow> error + pyvalue \<times> MergeConflict list"
  and merge_lists ::
    "pyvalue \<Rightarrow> pyvalue list \<Rightarrow> pyvalue list \<Rightarrow> string \<Rightarrow> MergeConflict list
      \<Rightarrow> error + pyvalue \<times> MergeConflict list"
  and merge_named_lists ::
    "pyvalue \<Rightarrow> pyvalue list \<Rightarrow> pyvalue list \<Rightarrow> string \<Rightarrow> MergeConflict list
      \<Rightarrow> error + pyvalue \<times> MergeConflict list"
  and named_loop ::
    "pyvalue list \<Rightarrow> (pyvalue \<times> pyvalue) list \<Rightarrow> (pyvalue \<times> pyvalue) list \<Rightarrow> string
      \<Rightarrow> pyvalue list \<Rightarrow> pyvalue list \<Rightarrow> MergeConflict list
      \<Rightarrow> error + (pyvalue list \<times> pyvalue list) \<times> MergeConflict list"
where
  "deep_merge base local remote p cs =
     (if py_eq local remote then Inr (local, cs)
      else case local of
          VMap l \<Rightarrow>
            (case remote of
               VMap r \<Rightarrow> merge_dicts (py_or base (VMap [])) l r p cs
             | _ \<Rightarrow> Inr (three_way base local remote p cs))
        | VSeq l \<Rightarrow>
            (case remote of
               VSeq r \<Rightarrow> merge_lists (py_or base (VSeq [])) l r p cs
             | _ \<Rightarrow> Inr (three_way base local remote p cs))
        | _ \<Rightarrow> Inr (three_way base local remote p cs))"
| "merge_dicts base local remote p cs =
     merge_dicts_loop (all_keys local remote) base local remote p
       (map (\<lambda>(key, v). (key, VNull)) local) cs"
| "merge_dicts_loop [] base local remote p merged cs = Inr (VMap merged, cs)"
| "merge_dicts_loop (key # keys) base local remote p merged cs =
     (case map_of local key of
        Some lv \<Rightarrow>
          (case map_of remote key of
             Some rv \<Rightarrow>
               (case (if truthy base then dict_get base key else Inr VNull) of
                  Inl e \<Rightarrow> Inl e
                | Inr bv \<Rightarrow>
                    (case deep_merge bv lv rv (key_path p key) cs of
                       Inl e \<Rightarrow> Inl e
                     | Inr (mv, cs') \<Rightarrow>
                         merge_dicts_loop keys base local remote p (setitem merged key mv) cs'))
           | None \<Rightarrow>
               (case key_in key base of
                  Inl e \<Rightarrow> Inl e
                | Inr True \<Rightarrow>
                    (case subscript base key of
                       Inl e \<Rightarrow> Inl e
                     | Inr bv \<Rightarrow>
                         merge_dicts_loop keys base local remote p (setitem merged key lv)
                           (cs @ [merge_conflict (key_path p key) bv lv VNull]))
                | Inr False \<Rightarrow>
                    merge_dicts_loop keys base local remote p (setitem merged key lv) cs))
      | None \<Rightarrow>
          (case map_of remote key of
             Some rv \<Rightarrow> merge_dicts_loop keys base local remote p (setitem merged key rv) cs
           | None \<Rightarrow> Inl KeyError))"
| "merge_lists base local remote p cs =
     (if is_named_list local \<or> is_named_list remote
      then merge_named_lists base local remote p cs
      else if \<not> py_eq (VSeq local) base \<and> \<not> py_eq (VSeq remote) base
              \<and> \<not> py_eq (VSeq local) (VSeq remote)
      then Inr (VSeq local, cs @ [merge_conflict p base (VSeq local) (VSeq remote)])
      else if \<not> py_eq (VSeq local) base then Inr (VSeq local, cs)
      else Inr (VSeq remote, cs))"
| "merge_named_lists base local remote p cs =
     (case iter_items (py_or base (VSeq [])) of
        Inl e \<Rightarrow> Inl e
      | Inr base_items \<Rightarrow>
     (case by_name base_items of
        Inl e \<Rightarrow> Inl e
      | Inr base_by_name \<Rightarrow>
     (case by_name local of
        Inl e \<Rightarrow> Inl e
      | Inr local_by_name \<Rightarrow>
     (case by_name remote of
        Inl e \<Rightarrow> Inl e
      | Inr remote_by_name \<Rightarrow>
     (case named_loop local base_by_name remote_by_name p [] [] cs of
        Inl e \<Rightarrow> Inl e
      | Inr ((seen_names, merged), cs') \<Rightarrow>
          Inr (VSeq (merged @ map snd
                 (filter (\<lambda>(name, item). \<not> list_ex (\<lambda>s. py_eq s name) seen_names)
                    remote_by_name)), cs'))))))"
| "named_loop [] base_by_name remote_by_name p seen_names merged cs =
     Inr ((seen_names, merged), cs)"
| "named_loop (item # rest) base_by_name remote_by_name p seen_names merged cs =
     (if is_dict item \<and> truthy (item_name item) then
        (case str_scalar (item_name item) of
           None \<Rightarrow> Inl TypeError
         | Some s \<Rightarrow>
             (case vlookup remote_by_name (item_name item) of
                Some remote_item \<Rightarrow>
                  (case deep_merge
                          (case vlookup base_by_name (item_name item) of
                             None \<Rightarrow> VMap [] | Some b \<Rightarrow> b)
                          item remote_item (p @ ''[name='' @ s @ '']'') cs of
                     Inl e \<Rightarrow> Inl e
                   | Inr (merged_item, cs') \<Rightarrow>
                       named_loop rest base_by_name remote_by_name p
                         (seen_names @ [item_name item]) (merged @ [merged_item]) cs')
              | None \<Rightarrow>
                  named_loop rest base_by_name remote_by_name p
                    (seen_names @ [item_name item]) (merged @ [item]) cs))
      else named_loop rest base_by_name remote_by_name p seen_names merged cs)"
  by pat_completeness auto

termination
  apply (relation "measures
    [case_sum
       (case_sum (\<lambda>(base, local, remote, p, cs). size local)
          (case_sum (\<lambda>(base, local, remote, p, cs). size (VMap local))
             (\<lambda>(keys, base, local, remote, p, merged, cs). size (VMap local))))
       (case_sum (\<lambda>(base, local, remote, p, cs). size (VSeq local))
          (case_sum (\<lambda>(base, local, remote, p, cs). size (VSeq local))
             (\<lambda>(items, bbn, rbn, p, seen, merged, cs). size (VSeq items)))),
     case_sum
       (case_sum (\<lambda>_. 3)
          (case_sum (\<lambda>_. 2) (\<lambda>_. 1)))
       (case_sum (\<lambda>_. 2)
          (case_sum (\<lambda>_. 1) (\<lambda>_. 0))),
     case_sum
       (case_sum (\<lambda>_. 0)
          (case_sum (\<lambda>_. 0) (\<lambda>(keys, base, local, remote, p, merged, cs). length keys)))
       (\<lambda>_. 0)]")
  apply (auto simp: map_of_size)
  done

declare deep_merge.simps [simp del]

definition merge :: "pyvalue \<Rightarrow> pyvalue \<Rightarrow> pyvalue \<Rightarrow> error + pyvalue \<times> MergeConflict list" where
  "merge base local remote = deep_merge base local remote [] []"


section \<open>The plain merger\<close>

text \<open>
  \<^verbatim>\<open>YAMLMerger\<close>, the second merger class of \<^verbatim>\<open>core/merger.py\<close>, works on plain
  dictionaries. It walks \<^verbatim>\<open>set(local.keys()) | set(remote.keys())\<close> and, for named lists,
  the set of all names; the order in which Python iterates a set is not fixed by the
  source, so it is a parameter: \<open>iter_keys\<close> and \<open>iter_names\<close> return the elements of
  the union in the order of iteration.
\<close>

record iteration =
  iter_keys :: "string list \<Rightarrow> string list"
  iter_names :: "pyvalue list \<Rightarrow> pyvalue list"

datatype pytype = NoneType | BoolType | IntType | StrType | ListType | DictType

fun type_of :: "pyvalue \<Rightarrow> pytype" where
  "type_of VNull = NoneType"
| "type_of (VBool b) = BoolType"
| "type_of (VInt i) = IntType"
| "type_of (VStr s) = StrType"
| "type_of (VSeq xs) = ListType"
| "type_of (VMap m) = DictType"

definition oval :: "pyvalue option \<Rightarrow> pyvalue" where
  "oval ov = (case ov of None \<Rightarrow> VNull | Some v \<Rightarrow> v)"

definition union_keys :: "string list \<Rightarrow> string list \<Rightarrow> string list" where
  "union_keys xs ys = xs @ filter (\<lambda>y. y \<notin> set xs) ys"

definition union_names :: "pyvalue list \<Rightarrow> pyvalue list \<Rightarrow> pyvalue list" where
  "union_names xs ys = xs @ filter (\<lambda>y. \<not> list_ex (\<lambda>x. py_eq x y) xs) ys"

definition values_size :: "(pyvalue \<times> pyvalue) list \<Rightarrow> nat" where
  "values_size d = size_list (\<lambda>x. size (snd x)) d"

lemma values_size_dict_set: "values_size (dict_set d k v) \<le> values_size d + Suc (size v)"
  by (induction d) (auto simp: values_size_def)

lemma values_size_by_name_acc:
  "by_name_acc acc l = Inr d \<Longrightarrow> values_size d \<le> values_size acc + size_list size l"
proof (induction l arbitrary: acc)
  case Nil
  then show ?case by simp
next
  case (Cons item rest)
  show ?case
  proof (cases "is_dict item")
    case True
    with Cons.prems have "by_name_acc (dict_set acc (item_name item) item) rest = Inr d"
      by (simp split: if_splits)
    from Cons.IH[OF this] values_size_dict_set[of acc "item_name item" item]
    show ?thesis by simp
  next
    case False
    with Cons.prems have "by_name_acc acc rest = Inr d" by simp
    from Cons.IH[OF this] show ?thesis by simp
  qed
qed

lemma values_size_by_name: "by_name l = Inr d \<Longrightarrow> values_size d \<le> size_list size l"
  using values_size_by_name_acc[of "[]" l d] by (simp add: by_name_def values_size_def)

lemma size_vlookup: "size (oval (vlookup d k)) \<le> values_size d"
  by (induction d) (auto simp: oval_def values_size_def)

lemma size_vlookup_measure: "4 * size (oval (vlookup d k)) < Suc (4 * values_size d)"
  using size_vlookup[of d k] by simp

function y_deep_merge ::
    "iteration \<Rightarrow> pyvalue \<Rightarrow> pyvalue \<Rightarrow> pyvalue \<Rightarrow> string \<Rightarrow> MergeConflict list
      \<Rightarrow> error + pyvalue \<times> MergeConflict list"
  and y_merge_dicts ::
    "iteration \<Rightarrow> pyvalue \<Rightarrow> (string \<times> pyvalue) list \<Rightarrow> (string \<times> pyvalue) list \<Rightarrow> string
      \<Rightarrow> MergeConflict list \<Rightarrow> error + pyvalue \<times> MergeConflict list"
  and y_merge_dicts_loop ::
    "iteration \<Rightarrow> string list \<Rightarrow> pyvalue \<Rightarrow> (string \<times> pyvalue) list \<Rightarrow> (string \<times> pyvalue) list
      \<Rightarrow> string \<Rightarrow> (string \<times> pyvalue) list \<Rightarrow> MergeConflict list
      \<Rightarrow> error + pyvalue \<times> MergeConflict list"
  and y_merge_lists ::
    "iteration \<Rightarrow> pyvalue \<Rightarrow> pyvalue list \<Rightarrow> pyvalue list \<Rightarrow> string \<Rightarrow> MergeConflict list
      \<Rightarrow> error + pyvalue \<times> MergeConflict list"
  and y_merge_named_lists ::
    "iteration \<Rightarrow> pyvalue \<Rightarrow> pyvalue list \<Rightarrow> pyvalue list \<Rightarrow> string \<Rightarrow> MergeConflict list
      \<Rightarrow> error + pyvalue \<times> MergeConflict list"
  and y_named_loop ::
    "iteration \<Rightarrow> pyvalue list \<Rightarrow> (pyvalue \<times> pyvalue) list \<Rightarrow> (pyvalue \<times> pyvalue) list
      \<Rightarrow> (pyvalue \<times> pyvalue) list \<Rightarrow> string \<Rightarrow> pyvalue list \<Rightarrow> MergeConflict list
      \<Rightarrow> error + pyvalue \<times> MergeConflict list"
where
  "y_deep_merge it base local remote p cs =
     (if py_eq local remote then Inr (local, cs)
      else if type_of local \<noteq> type_of remote then Inr (three_way base local remote p cs)
      else case local of
          VMap l \<Rightarrow>
            (case remote of
               VMap r \<Rightarrow> y_merge_dicts it (py_or base (VMap [])) l r p cs
             | _ \<Rightarrow> Inr (three_way base local remote p cs))
        | VSeq l \<Rightarrow>
            (case remote of
               VSeq r \<Rightarrow> y_merge_lists it (py_or base (VSeq [])) l r p cs
             | _ \<Rightarrow> Inr (three_way base local remote p cs))
        | _ \<Rightarrow> Inr (three_way base local remote p cs))"
| "y_merge_dicts it base local remote p cs =
     y_merge_dicts_loop it (iter_keys it (union_keys (map fst local) (map fst remote)))
       base local remote p [] cs"
| "y_merge_dicts_loop it [] base local remote p merged cs = Inr (VMap merged, cs)"
| "y_merge_dicts_loop it (key # keys) base local remote p merged cs =
     (case map_of local key of
        Some lv \<Rightarrow>
          (case map_of remote key of
             Some rv \<Rightarrow>
               (case dict_get base key of
                  Inl e \<Rightarrow> Inl e
                | Inr bv \<Rightarrow>
                    (case y_deep_merge it bv lv rv (key_path p key) cs of
                       Inl e \<Rightarrow> Inl e
                     | Inr (mv, cs') \<Rightarrow>
                         y_merge_dicts_loop it keys base local remote p
                           (setitem merged key mv) cs'))
           | None \<Rightarrow>
               (case key_in key base of
                  Inl e \<Rightarrow> Inl e
                | Inr True \<Rightarrow>
                    (case subscript base key of
                       Inl e \<Rightarrow> Inl e
                     | Inr bv \<Rightarrow>
                         y_merge_dicts_loop it keys base local remote p
                           (setitem merged key lv)
                           (cs @ [merge_conflict (key_path p key) bv lv VNull]))
                | Inr False \<Rightarrow>
                    y_merge_dicts_loop it keys base local remote p (setitem merged key lv) cs))
      | None \<Rightarrow>
          (case map_of remote key of
             Some rv \<Rightarrow>
               (case key_in key base of
                  Inl e \<Rightarrow> Inl e
                | Inr True \<Rightarrow>
                    (case subscript base key of
                       Inl e \<Rightarrow> Inl e
                     | Inr bv \<Rightarrow>
                         y_merge_dicts_loop it keys base local remote p merged
                           (cs @ [merge_conflict (key_path p key) bv VNull rv]))
                | Inr False \<Rightarrow>
                    y_merge_dicts_loop it keys base local remote p (setitem merged key rv) cs)
           | None \<Rightarrow> Inl KeyError))"
| "y_merge_lists it base local remote p cs =
     (if is_named_list local \<or> is_named_list remote
      then y_merge_named_lists it base local remote p cs
      else if \<not> py_eq (VSeq local) base \<and> \<not> py_eq (VSeq remote) base
              \<and> \<not> py_eq (VSeq local) (VSeq remote)
      then Inr (VSeq local, cs @ [merge_conflict p base (VSeq local) (VSeq remote)])
      else if \<not> py_eq (VSeq local) base then Inr (VSeq local, cs)
      else Inr (VSeq remote, cs))"
| "y_merge_named_lists it base local remote p cs =
     (case iter_items base of
        Inl e \<Rightarrow> Inl e
      | Inr base_items \<Rightarrow>
     (case by_name base_items of
        Inl e \<Rightarrow> Inl e
      | Inr base_by_name \<Rightarrow>
     (case by_name local of
        Inl e \<Rightarrow> Inl e
      | Inr local_by_name \<Rightarrow>
     (case by_name remote of
        Inl e \<Rightarrow> Inl e
      | Inr remote_by_name \<Rightarrow>
          y_named_loop it
            (iter_names it (union_names (map fst local_by_name) (map fst remote_by_name)))
            base_by_name local_by_name remote_by_name p [] cs))))"
| "y_named_loop it [] base_by_name local_by_name remote_by_name p merged cs =
     Inr (VSeq merged, cs)"
| "y_named_loop it (name # names) base_by_name local_by_name remote_by_name p merged cs =
     (case str_scalar name of
        None \<Rightarrow> Inl TypeError
      | Some s \<Rightarrow>
          (if truthy (oval (vlookup local_by_name name))
              \<and> truthy (oval (vlookup remote_by_name name))
           then (case y_deep_merge it
                        (case vlookup base_by_name name of None \<Rightarrow> VMap [] | Some b \<Rightarrow> b)
                        (oval (vlookup local_by_name name))
                        (oval (vlookup remote_by_name name))
                        (p @ ''[name='' @ s @ '']'') cs of
                   Inl e \<Rightarrow> Inl e
                 | Inr (merged_item, cs') \<Rightarrow>
                     y_named_loop it names base_by_name local_by_name remote_by_name p
                       (merged @ [merged_item]) cs')
           else if truthy (oval (vlookup local_by_name name))
           then y_named_loop it names base_by_name local_by_name remote_by_name p
                  (merged @ [oval (vlookup local_by_name name)]) cs
           else y_named_loop it names base_by_name local_by_name remote_by_name p
                  (merged @ [oval (vlookup remote_by_name name)]) cs))"
  by pat_completeness auto
termination
  apply (relation "measures
    [case_sum
       (case_sum (\<lambda>(it, base, local, remote, p, cs). 4 * size local + 3)
          (case_sum (\<lambda>(it, base, local, remote, p, cs). 4 * size (VMap local) + 2)
             (\<lambda>(it, keys, base, local, remote, p, merged, cs). 4 * size (VMap local) + 1)))
       (case_sum (\<lambda>(it, base, local, remote, p, cs). 4 * size (VSeq local) + 2)
          (case_sum (\<lambda>(it, base, local, remote, p, cs). 4 * size (VSeq local) + 1)
             (\<lambda>(it, names, bbn, lbn, rbn, p, merged, cs). 4 * Suc (values_size lbn)))),
     case_sum
       (case_sum (\<lambda>_. 0)
          (case_sum (\<lambda>_. 0) (\<lambda>(it, keys, base, local, remote, p, merged, cs). length keys)))
       (case_sum (\<lambda>_. 0)
          (case_sum (\<lambda>_. 0) (\<lambda>(it, names, bbn, lbn, rbn, p, merged, cs). length names)))]")
  apply (auto simp: size_vlookup_measure dest!: map_of_size values_size_by_name)
  done

declare y_deep_merge.simps [simp del]

definition y_merge ::
  "iteration \<Rightarrow> pyvalue \<Rightarrow> pyvalue \<Rightarrow> pyvalue \<Rightarrow> error + pyvalue \<times> MergeConflict list" where
  "y_merge it base local remote = y_deep_merge it base local remote [] []"


text \<open>
  One iteration order of the two sets: the order in which the keys were collected.
\<close>

definition in_order :: iteration where
  "in_order = \<lparr>iter_keys = (\<lambda>ks. ks), iter_names = (\<lambda>ns. ns)\<rparr>"

section \<open>Key paths and key order\<close>






section \<open>Predicates of the statements\<close>

text \<open>
  \<open>omitted_item\<close>: a local item that the named-list merge passes over: not a mapping,
  or a mapping whose \<^verbatim>\<open>item.get('name')\<close> is \<^verbatim>\<open>None\<close> or the empty string.
  \<open>name_ok\<close>: the item does not make the index by name raise.
\<close>

definition omitted_item :: "pyvalue \<Rightarrow> bool" where
  "omitted_item x = (\<not> is_dict x \<or> item_name x = VNull \<or> item_name x = VStr [])"

definition name_ok :: "pyvalue \<Rightarrow> bool" where
  "name_ok item = (if is_dict item then hashable (item_name item) else True)"



section \<open>The templated-text merger\<close>

text \<open>
  \<^verbatim>\<open>HelmTemplateMerger.merge_template\<close>. A text is a list of characters with codes below
  256. \<^verbatim>\<open>re.split(r'({{[^}]*}})', content)\<close> cuts the text at the leftmost directives: two
  opening braces, then characters other than a closing brace, then two closing braces. The
  run of other characters is greedy and cannot give back a closing brace, so at a given
  start there is a match exactly when the first closing brace after the opening pair is
  followed by another one. The result alternates static text and directives, beginning
  and ending with static text.
\<close>

definition match_directive :: "string \<Rightarrow> (string \<times> string) option" where
  "match_directive s =
     (if take 2 s = ''{{'' then
        (let t = drop 2 s;
             body = takeWhile (\<lambda>c. c \<noteq> CHR ''}'') t;
             rest = dropWhile (\<lambda>c. c \<noteq> CHR ''}'') t
         in if take 2 rest = ''}}'' then Some (''{{'' @ body @ ''}}'', drop 2 rest) else None)
      else None)"

lemma match_directive_shorter:
  "match_directive s = Some (d, rest) \<Longrightarrow> length rest < length s"
proof -
  assume m: "match_directive s = Some (d, rest)"
  let ?t = "drop 2 s"
  let ?r = "dropWhile (\<lambda>c. c \<noteq> CHR ''}'') ?t"
  from m have s2: "take 2 s = ''{{''" and rest: "rest = drop 2 ?r"
    by (auto simp: match_directive_def Let_def split: if_splits)
  from s2 have "2 \<le> length s"
    by (metis length_take min.cobounded1 length_Cons list.size(3) One_nat_def Suc_1)
  moreover have "length ?r \<le> length ?t" by (rule length_dropWhile_le)
  ultimately show ?thesis unfolding rest by simp
qed

function re_split :: "string \<Rightarrow> string \<Rightarrow> string list" where
  "re_split acc [] = [acc]"
| "re_split acc (c # s) =
     (case match_directive (c # s) of
        Some (d, rest) \<Rightarrow> acc # d # re_split [] rest
      | None \<Rightarrow> re_split (acc @ [c]) s)"
  by pat_completeness auto
termination
  by (relation "measure (\<lambda>(acc, s). length s)") (auto dest: match_directive_shorter)

text \<open>\<^verbatim>\<open>part.strip()\<close> removes leading and trailing whitespace, as \<^verbatim>\<open>str.isspace\<close> sees it.\<close>

definition is_space :: "char \<Rightarrow> bool" where
  "is_space c = (of_char c \<in> {9, 10, 11, 12, 13, 28, 29, 30, 31, 32, 133, 160 :: nat})"

definition strip :: "string \<Rightarrow> string" where
  "strip s = rev (dropWhile is_space (rev (dropWhile is_space s)))"

fun blocks_from :: "nat \<Rightarrow> string list \<Rightarrow> (string \<times> string) list" where
  "blocks_from i [] = []"
| "blocks_from i (part # parts) =
     (if i mod 2 = 0
      then (if strip part \<noteq> [] then [(''static'', part)] else [])
      else [(''template'', part)]) @ blocks_from (Suc i) parts"

definition extract_blocks :: "string \<Rightarrow> (string \<times> string) list" where
  "extract_blocks content = blocks_from 0 (re_split [] content)"

text \<open>
  The conflict marker is an f-string, in which a doubled brace stands for one brace: the
  text written has single braces.
\<close>

definition conflict_marker :: "string \<Rightarrow> string \<Rightarrow> string" where
  "conflict_marker local_text remote_text =
     [CHR 0x0A] @ ''{- /* MERGE CONFLICT START */ -}'' @
     [CHR 0x0A] @ ''{- /* LOCAL VERSION: */ -}'' @
     [CHR 0x0A] @ local_text @
     [CHR 0x0A] @ ''{- /* REMOTE VERSION: */ -}'' @
     [CHR 0x0A] @ remote_text @
     [CHR 0x0A] @ ''{- /* MERGE CONFLICT END */ -}''"

text \<open>
  The loop runs over \<^verbatim>\<open>enumerate(zip(base_blocks, local_blocks, remote_blocks))\<close>;
  \<open>n\<close> is \<^verbatim>\<open>len(base_blocks)\<close>.
\<close>

fun merge_blocks ::
  "nat \<Rightarrow> nat \<Rightarrow> ((string \<times> string) \<times> (string \<times> string) \<times> (string \<times> string)) list
    \<Rightarrow> string list \<Rightarrow> MergeConflict list \<Rightarrow> string list \<times> MergeConflict list" where
  "merge_blocks i n [] merged conflicts = (merged, conflicts)"
| "merge_blocks i n ((base_block, local_block, remote_block) # rest) merged conflicts =
     (if local_block = remote_block
      then merge_blocks (Suc i) n rest (merged @ [snd local_block]) conflicts
      else if local_block = base_block
      then merge_blocks (Suc i) n rest (merged @ [snd remote_block]) conflicts
      else if remote_block = base_block
      then merge_blocks (Suc i) n rest (merged @ [snd local_block]) conflicts
      else merge_blocks (Suc i) n rest
             (merged @ [conflict_marker (snd local_block) (snd remote_block)])
             (conflicts @
                [merge_conflict (''block_'' @ str_nat i)
                   (if i < n then VStr (snd base_block) else VNull)
                   (VStr (snd local_block)) (VStr (snd remote_block))]))"

definition merge_template :: "string \<Rightarrow> string \<Rightarrow> string \<Rightarrow> string \<times> MergeConflict list" where
  "merge_template base local remote =
     (let base_blocks = extract_blocks base;
          local_blocks = extract_blocks local;
          remote_blocks = extract_blocks remote
      in if length local_blocks = length remote_blocks
         then (case merge_blocks 0 (length base_blocks)
                     (zip base_blocks (zip local_blocks remote_blocks)) [] [] of
                 (merged, conflicts) \<Rightarrow> (concat merged, conflicts))
         else (local, [merge_conflict ''entire_file'' (VStr base) (VStr local) (VStr remote)]))"

section \<open>The filesystem\<close>

text \<open>
  \<^verbatim>\<open>apply_merged_files\<close> works on directories. A path is its list of components; the
  filesystem maps a path to a file with its text or to a directory with the names of its
  entries, in the order a listing gives them. The operations of \<^verbatim>\<open>shutil\<close> and
  \<^verbatim>\<open>pathlib\<close> that the function calls either raise and change nothing, or succeed.
  \<^verbatim>\<open>copytree\<close> and \<^verbatim>\<open>move\<close> create the destination inside an existing directory (the
  source creates missing parents too, which the calls modelled here never need).
\<close>

type_synonym fpath = "string list"

datatype node = File string | Dir "string list"

type_synonym filesystem = "fpath \<Rightarrow> node option"

definition path_exists :: "filesystem \<Rightarrow> fpath \<Rightarrow> bool" where
  "path_exists fs p = (fs p \<noteq> None)"

definition is_dir :: "filesystem \<Rightarrow> fpath \<Rightarrow> bool" where
  "is_dir fs p = (case fs p of Some (Dir names) \<Rightarrow> True | _ \<Rightarrow> False)"

definition path_name :: "fpath \<Rightarrow> string" where
  "path_name p = (if p = [] then [] else last p)"

definition add_entry :: "filesystem \<Rightarrow> fpath \<Rightarrow> string \<Rightarrow> filesystem" where
  "add_entry fs d name =
     (case fs d of
        Some (Dir names) \<Rightarrow> fs(d \<mapsto> Dir (if name \<in> set names then names else names @ [name]))
      | _ \<Rightarrow> fs)"

definition del_entry :: "filesystem \<Rightarrow> fpath \<Rightarrow> string \<Rightarrow> filesystem" where
  "del_entry fs d name =
     (case fs d of Some (Dir names) \<Rightarrow> fs(d \<mapsto> Dir (removeAll name names)) | _ \<Rightarrow> fs)"

definition write_text :: "filesystem \<Rightarrow> fpath \<Rightarrow> string \<Rightarrow> error + filesystem" where
  "write_text fs p text =
     (if is_dir fs p then Inl IsADirectoryError
      else if \<not> is_dir fs (butlast p) then Inl FileNotFoundError
      else Inr (add_entry (fs(p \<mapsto> File text)) (butlast p) (path_name p)))"

definition read_text :: "filesystem \<Rightarrow> fpath \<Rightarrow> error + string" where
  "read_text fs p =
     (case fs p of
        Some (File text) \<Rightarrow> Inr text
      | Some (Dir names) \<Rightarrow> Inl IsADirectoryError
      | None \<Rightarrow> Inl FileNotFoundError)"

definition mkdir :: "filesystem \<Rightarrow> fpath \<Rightarrow> error + filesystem" where
  "mkdir fs p =
     (case fs p of
        Some (Dir names) \<Rightarrow> Inr fs
      | Some (File text) \<Rightarrow> Inl FileExistsError
      | None \<Rightarrow>
          (if is_dir fs (butlast p)
           then Inr (add_entry (fs(p \<mapsto> Dir [])) (butlast p) (path_name p))
           else Inl FileNotFoundError))"

definition rmtree :: "filesystem \<Rightarrow> fpath \<Rightarrow> error + filesystem" where
  "rmtree fs p =
     (case fs p of
        Some (Dir names) \<Rightarrow>
          Inr (del_entry (\<lambda>q. if prefix p q then None else fs q) (butlast p) (path_name p))
      | Some (File text) \<Rightarrow> Inl NotADirectoryError
      | None \<Rightarrow> Inl FileNotFoundError)"

definition graft :: "filesystem \<Rightarrow> fpath \<Rightarrow> fpath \<Rightarrow> filesystem" where
  "graft fs src dst = (\<lambda>q. if prefix dst q then fs (src @ drop (length dst) q) else fs q)"

definition copytree :: "filesystem \<Rightarrow> fpath \<Rightarrow> fpath \<Rightarrow> error + filesystem" where
  "copytree fs src dst =
     (case fs src of
        Some (Dir names) \<Rightarrow>
          (if path_exists fs dst then Inl FileExistsError
           else if \<not> is_dir fs (butlast dst) then Inl FileNotFoundError
           else Inr (add_entry (graft fs src dst) (butlast dst) (path_name dst)))
      | Some (File text) \<Rightarrow> Inl NotADirectoryError
      | None \<Rightarrow> Inl FileNotFoundError)"

definition move :: "filesystem \<Rightarrow> fpath \<Rightarrow> fpath \<Rightarrow> error + filesystem" where
  "move fs src dst =
     (let real_dst = (if is_dir fs dst then dst @ [path_name src] else dst)
      in if \<not> path_exists fs src then Inl FileNotFoundError
         else if path_exists fs real_dst then Inl FileExistsError
         else if \<not> is_dir fs (butlast real_dst) then Inl FileNotFoundError
         else Inr (add_entry
                (del_entry
                   (\<lambda>q. if prefix real_dst q then fs (src @ drop (length real_dst) q)
                        else if prefix src q then None else fs q)
                   (butlast src) (path_name src))
                (butlast real_dst) (path_name real_dst)))"

definition copy2 :: "filesystem \<Rightarrow> fpath \<Rightarrow> fpath \<Rightarrow> error + filesystem" where
  "copy2 fs src dst =
     (case fs src of
        Some (File text) \<Rightarrow> write_text fs dst text
      | Some (Dir names) \<Rightarrow> Inl IsADirectoryError
      | None \<Rightarrow> Inl FileNotFoundError)"

definition glob_yaml :: "filesystem \<Rightarrow> fpath \<Rightarrow> string list" where
  "glob_yaml fs d =
     (case fs d of Some (Dir names) \<Rightarrow> filter (\<lambda>name. suffix ''.yaml'' name) names | _ \<Rightarrow> [])"

section \<open>Calls that fail part-way\<close>

text \<open>
  The operations above are what the calls do when the operating system lets them finish,
  or refuse at once. A call can also fail in the middle: \<^verbatim>\<open>shutil.rmtree\<close> raises at the
  first entry it cannot delete, after it has deleted others; a copy or a write stops with
  part of its output on disk. \<open>os_fault\<close>, a parameter, decides for each call whether it
  fails in this way, with which error, and what it leaves: below the paths the call works
  on (\<open>targets\<close>) the filesystem \<open>left\<close> is taken, a directory that holds such a path
  may have another listing, and everything else is as before (\<open>damaged\<close>).
\<close>

datatype oscall =
    Rmtree fpath
  | Copytree fpath fpath
  | Move fpath fpath
  | WriteText fpath string
  | Mkdir fpath
  | Copy2 fpath fpath

fun perform :: "filesystem \<Rightarrow> oscall \<Rightarrow> error + filesystem" where
  "perform fs (Rmtree p) = rmtree fs p"
| "perform fs (Copytree src dst) = copytree fs src dst"
| "perform fs (Move src dst) = move fs src dst"
| "perform fs (WriteText p text) = write_text fs p text"
| "perform fs (Mkdir p) = mkdir fs p"
| "perform fs (Copy2 src dst) = copy2 fs src dst"

fun targets :: "filesystem \<Rightarrow> oscall \<Rightarrow> fpath list" where
  "targets fs (Rmtree p) = [p]"
| "targets fs (Copytree src dst) = [dst]"
| "targets fs (Move src dst) = [src, if is_dir fs dst then dst @ [path_name src] else dst]"
| "targets fs (WriteText p text) = [p]"
| "targets fs (Mkdir p) = [p]"
| "targets fs (Copy2 src dst) = [dst]"

definition damaged :: "filesystem \<Rightarrow> fpath list \<Rightarrow> filesystem \<Rightarrow> filesystem" where
  "damaged fs ts left =
     (\<lambda>q. if list_ex (\<lambda>t. prefix t q) ts then left q
          else if list_ex (\<lambda>t. t \<noteq> [] \<and> q = butlast t) ts \<and> is_dir fs q \<and> is_dir left q
          then left q
          else fs q)"

section \<open>The apply stage\<close>

text \<open>
  What \<^verbatim>\<open>apply_merged_files\<close> calls outside the two source files is a parameter: the
  YAML dumpers and loader, \<^verbatim>\<open>str()\<close> of a value, the two static methods of
  \<^verbatim>\<open>ConflictMarkerGenerator\<close>, of which \<^verbatim>\<open>write_conflicted_file\<close> is taken to write
  one text to the path it is given, \<^verbatim>\<open>self.console.print\<close>, and the faults of the
  operating system. Each may raise, with any error, \<^verbatim>\<open>KeyboardInterrupt\<close> included. The
  argument \<^verbatim>\<open>local_additions\<close> is never read and is left out.
\<close>

record env =
  apply_resolution_to_values :: "pyvalue \<Rightarrow> MergeConflict list \<Rightarrow> error + pyvalue"
  ruamel_dump :: "pyvalue \<Rightarrow> error + string"
  str_value :: "pyvalue \<Rightarrow> string"
  conflicted_text :: "string \<Rightarrow> MergeConflict list \<Rightarrow> error + string"
  safe_load :: "string \<Rightarrow> error + pyvalue"
  yaml_dump :: "pyvalue \<Rightarrow> error + string"
  console_print :: "string \<Rightarrow> error option"
  os_fault :: "filesystem \<Rightarrow> oscall \<Rightarrow> (error \<times> filesystem) option"

type_synonym outcome = "error \<times> filesystem + filesystem"

definition raised :: "filesystem \<Rightarrow> error + filesystem \<Rightarrow> outcome" where
  "raised fs r = (case r of Inl e \<Rightarrow> Inl (e, fs) | Inr fs' \<Rightarrow> Inr fs')"

definition os_call :: "env \<Rightarrow> filesystem \<Rightarrow> oscall \<Rightarrow> outcome" where
  "os_call ev fs c =
     (case os_fault ev fs c of
        Some (e, left) \<Rightarrow> Inl (e, damaged fs (targets fs c) left)
      | None \<Rightarrow> raised fs (perform fs c))"

definition and_then :: "outcome \<Rightarrow> (filesystem \<Rightarrow> outcome) \<Rightarrow> outcome" where
  "and_then r f = (case r of Inl x \<Rightarrow> Inl x | Inr fs \<Rightarrow> f fs)"

fun for_each :: "('a \<Rightarrow> filesystem \<Rightarrow> outcome) \<Rightarrow> 'a list \<Rightarrow> filesystem \<Rightarrow> outcome" where
  "for_each f [] fs = Inr fs"
| "for_each f (x # xs) fs = and_then (f x fs) (for_each f xs)"

text \<open>
  The backup. Its two calls are taken as they are when they finish or refuse; they come
  before the \<^verbatim>\<open>try\<close> block, and the element directory is the same after them whatever
  they do to the backup path.
\<close>

definition backup_path :: "fpath \<Rightarrow> fpath" where
  "backup_path element_path = butlast element_path @ [''.'' @ path_name element_path @ ''.backup'']"

definition create_backup :: "filesystem \<Rightarrow> fpath \<Rightarrow> outcome" where
  "create_backup fs element_path =
     and_then
       (if path_exists fs (backup_path element_path)
        then raised fs (rmtree fs (backup_path element_path)) else Inr fs)
       (\<lambda>fs1. raised fs1 (copytree fs1 element_path (backup_path element_path)))"

definition write_values ::
  "env \<Rightarrow> fpath \<Rightarrow> pyvalue \<Rightarrow> MergeConflict list \<Rightarrow> filesystem \<Rightarrow> outcome" where
  "write_values ev element_path merged_values values_conflicts fs =
     (case (if values_conflicts \<noteq> []
            then apply_resolution_to_values ev merged_values values_conflicts
            else Inr merged_values) of
        Inl e \<Rightarrow> Inl (e, fs)
      | Inr merged \<Rightarrow>
          and_then (os_call ev fs (WriteText (element_path @ [''values.yaml'']) []))
            (\<lambda>fs1. case ruamel_dump ev merged of
                Inl e \<Rightarrow> Inl (e, fs1)
              | Inr text \<Rightarrow> os_call ev fs1 (WriteText (element_path @ [''values.yaml'']) text)))"

text \<open>
  Names. The header is built from \<^verbatim>\<open>baseline.version\<close> and \<^verbatim>\<open>target_version\<close>. A name
  is looked up among the function's own names, then the module's, then the builtins. The
  lists below are the parameters and the variables assigned before line 145, and the names
  that \<^verbatim>\<open>commands/upgrade.py\<close> binds at module level (its imports, the class and the
  command); no builtin has either name. In the source, \<^verbatim>\<open>baseline\<close> is a variable of the
  function \<^verbatim>\<open>upgrade\<close> and \<^verbatim>\<open>target_version\<close> one of the function nested in it.
\<close>

datatype pyobj = Opaque string | Text string

definition local_names :: "string list" where
  "local_names = [''self'', ''element_path'', ''merged_values'', ''values_conflicts'',
     ''converter_merges'', ''remote_version_path'', ''local_additions'', ''backup_path'',
     ''values_path'', ''f'', ''content'']"

definition module_names :: "string list" where
  "module_names = [''asyncio'', ''shutil'', ''tempfile'', ''Path'', ''Optional'', ''Dict'',
     ''Any'', ''click'', ''yaml'', ''Console'', ''Panel'', ''Progress'', ''SpinnerColumn'',
     ''TextColumn'', ''Confirm'', ''YAML'', ''ChangeDetector'', ''TemplateSnapshot'',
     ''ConflictReport'', ''ConflictResolver'', ''ConflictMarkerGenerator'', ''YAMLMerger'',
     ''HelmTemplateMerger'', ''MergeConflict'', ''PreservingYAMLMerger'',
     ''TemplateInstaller'', ''TemplateUpgrader'', ''upgrade'']"

definition load_name :: "string \<Rightarrow> error + pyobj" where
  "load_name name =
     (if name \<in> set (local_names @ module_names) then Inr (Opaque name)
      else Inl (NameError name))"

fun getattr :: "pyobj \<Rightarrow> string \<Rightarrow> error + pyobj" where
  "getattr obj name = Inl AttributeError"

fun str_obj :: "pyobj \<Rightarrow> string" where
  "str_obj (Opaque name) = name"
| "str_obj (Text s) = s"

definition unresolved :: "MergeConflict \<Rightarrow> bool" where
  "unresolved c = (case resolution c of None \<Rightarrow> True | Some s \<Rightarrow> s = [])"

definition conflict_lines :: "env \<Rightarrow> MergeConflict \<Rightarrow> string list" where
  "conflict_lines ev c =
     (if unresolved c
      then [''#   - '' @ path c,
            ''#     Local: '' @ str_value ev (local_value c),
            ''#     Remote: '' @ str_value ev (remote_value c)]
      else [])"

definition conflict_header :: "env \<Rightarrow> MergeConflict list \<Rightarrow> error + string list" where
  "conflict_header ev values_conflicts =
     (case load_name ''baseline'' of
        Inl e \<Rightarrow> Inl e
      | Inr baseline \<Rightarrow>
     (case getattr baseline ''version'' of
        Inl e \<Rightarrow> Inl e
      | Inr version \<Rightarrow>
     (case load_name ''target_version'' of
        Inl e \<Rightarrow> Inl e
      | Inr target_version \<Rightarrow>
          Inr ([''# MERGE CONFLICTS FOUND'',
                ''# Upgrade from '' @ str_obj version @ '' to '' @ str_obj target_version,
                ''# The following paths had conflicts:'']
               @ concat (map (conflict_lines ev) values_conflicts)
               @ [''# Please review and resolve manually'', []]))))"

fun join_lines :: "string list \<Rightarrow> string" where
  "join_lines [] = []"
| "join_lines [l] = l"
| "join_lines (l # ls) = l @ [CHR 0x0A] @ join_lines ls"

definition write_conflict_header ::
  "env \<Rightarrow> fpath \<Rightarrow> MergeConflict list \<Rightarrow> filesystem \<Rightarrow> outcome" where
  "write_conflict_header ev element_path values_conflicts fs =
     (if list_ex unresolved values_conflicts then
        (case read_text fs (element_path @ [''values.yaml'']) of
           Inl e \<Rightarrow> Inl (e, fs)
         | Inr content \<Rightarrow>
             (case conflict_header ev values_conflicts of
                Inl e \<Rightarrow> Inl (e, fs)
              | Inr header \<Rightarrow>
                  os_call ev fs (WriteText (element_path @ [''values.yaml''])
                    (join_lines header @ content))))
      else Inr fs)"

definition write_converter ::
  "env \<Rightarrow> fpath \<Rightarrow> string \<times> string \<times> MergeConflict list \<Rightarrow> filesystem \<Rightarrow> outcome" where
  "write_converter ev converters_dir item fs =
     (case item of
        (converter_name, content, conflicts) \<Rightarrow>
          (if conflicts \<noteq> []
           then (case conflicted_text ev content conflicts of
                   Inl e \<Rightarrow> Inl (e, fs)
                 | Inr text \<Rightarrow> os_call ev fs (WriteText (converters_dir @ [converter_name]) text))
           else os_call ev fs (WriteText (converters_dir @ [converter_name]) content)))"

definition process_converters ::
  "env \<Rightarrow> fpath \<Rightarrow> (string \<times> string \<times> MergeConflict list) list \<Rightarrow> filesystem \<Rightarrow> outcome" where
  "process_converters ev element_path converter_merges fs =
     and_then (os_call ev fs (Mkdir (element_path @ [''converters''])))
       (for_each (write_converter ev (element_path @ [''converters''])) converter_merges)"

definition copy_converter :: "env \<Rightarrow> fpath \<Rightarrow> fpath \<Rightarrow> string \<Rightarrow> filesystem \<Rightarrow> outcome" where
  "copy_converter ev remote_converters converters_dir name fs =
     (if \<not> path_exists fs (converters_dir @ [name])
      then os_call ev fs (Copy2 (remote_converters @ [name]) (converters_dir @ [name]))
      else Inr fs)"

definition copy_new_converters :: "env \<Rightarrow> fpath \<Rightarrow> fpath \<Rightarrow> filesystem \<Rightarrow> outcome" where
  "copy_new_converters ev element_path remote_version_path fs =
     (if path_exists fs (remote_version_path @ [''converters''])
      then for_each
             (copy_converter ev (remote_version_path @ [''converters''])
                (element_path @ [''converters'']))
             (glob_yaml fs (remote_version_path @ [''converters''])) fs
      else Inr fs)"

fun get_default :: "pyvalue \<Rightarrow> string \<Rightarrow> pyvalue \<Rightarrow> error + pyvalue" where
  "get_default (VMap m) key d = Inr (case map_of m key of None \<Rightarrow> d | Some v \<Rightarrow> v)"
| "get_default _ key d = Inl AttributeError"

fun set_item :: "pyvalue \<Rightarrow> string \<Rightarrow> pyvalue \<Rightarrow> error + pyvalue" where
  "set_item (VMap m) key v = Inr (VMap (setitem m key v))"
| "set_item _ key v = Inl TypeError"

definition load_chart :: "env \<Rightarrow> fpath \<Rightarrow> fpath \<Rightarrow> filesystem \<Rightarrow> error + pyvalue" where
  "load_chart ev element_path remote_version_path fs =
     (case read_text fs (remote_version_path @ [''Chart.yaml'']) of
        Inl e \<Rightarrow> Inl e
      | Inr remote_text \<Rightarrow>
     (case safe_load ev remote_text of
        Inl e \<Rightarrow> Inl e
      | Inr chart_data \<Rightarrow>
     (case read_text fs (element_path @ [''Chart.yaml'']) of
        Inl e \<Rightarrow> Inl e
      | Inr local_text \<Rightarrow>
     (case safe_load ev local_text of
        Inl e \<Rightarrow> Inl e
      | Inr local_chart_data \<Rightarrow>
     (case get_default local_chart_data ''name'' (VStr (path_name element_path)) of
        Inl e \<Rightarrow> Inl e
      | Inr name \<Rightarrow> set_item chart_data ''name'' name)))))"

definition update_chart :: "env \<Rightarrow> fpath \<Rightarrow> fpath \<Rightarrow> filesystem \<Rightarrow> outcome" where
  "update_chart ev element_path remote_version_path fs =
     (if path_exists fs (remote_version_path @ [''Chart.yaml'']) then
        (case load_chart ev element_path remote_version_path fs of
           Inl e \<Rightarrow> Inl (e, fs)
         | Inr chart_data \<Rightarrow>
             and_then (os_call ev fs (WriteText (element_path @ [''Chart.yaml'']) []))
               (\<lambda>fs1. case yaml_dump ev chart_data of
                   Inl e \<Rightarrow> Inl (e, fs1)
                 | Inr text \<Rightarrow>
                     os_call ev fs1 (WriteText (element_path @ [''Chart.yaml'']) text)))
      else Inr fs)"

definition replace_tree :: "env \<Rightarrow> fpath \<Rightarrow> fpath \<Rightarrow> string \<Rightarrow> filesystem \<Rightarrow> outcome" where
  "replace_tree ev element_path remote_version_path sub fs =
     (if path_exists fs (remote_version_path @ [sub]) then
        and_then
          (if path_exists fs (element_path @ [sub])
           then os_call ev fs (Rmtree (element_path @ [sub])) else Inr fs)
          (\<lambda>fs1. os_call ev fs1 (Copytree (remote_version_path @ [sub]) (element_path @ [sub])))
      else Inr fs)"

text \<open>The statements of the \<^verbatim>\<open>try\<close> block before the backup is removed, then all of it.\<close>

definition write_merged ::
  "env \<Rightarrow> fpath \<Rightarrow> pyvalue \<Rightarrow> MergeConflict list \<Rightarrow> (string \<times> string \<times> MergeConflict list) list
    \<Rightarrow> fpath \<Rightarrow> filesystem \<Rightarrow> outcome" where
  "write_merged ev element_path merged_values values_conflicts converter_merges
       remote_version_path fs =
     and_then (and_then (and_then (and_then (and_then (and_then
       (write_values ev element_path merged_values values_conflicts fs)
       (write_conflict_header ev element_path values_conflicts))
       (process_converters ev element_path converter_merges))
       (copy_new_converters ev element_path remote_version_path))
       (update_chart ev element_path remote_version_path))
       (replace_tree ev element_path remote_version_path ''templates''))
       (replace_tree ev element_path remote_version_path ''examples'')"

definition try_block ::
  "env \<Rightarrow> fpath \<Rightarrow> pyvalue \<Rightarrow> MergeConflict list \<Rightarrow> (string \<times> string \<times> MergeConflict list) list
    \<Rightarrow> fpath \<Rightarrow> filesystem \<Rightarrow> outcome" where
  "try_block ev element_path merged_values values_conflicts converter_merges
       remote_version_path fs =
     and_then
       (write_merged ev element_path merged_values values_conflicts converter_merges
          remote_version_path fs)
       (\<lambda>fs1. os_call ev fs1 (Rmtree (backup_path element_path)))"

text \<open>
  The handler. \<^verbatim>\<open>except Exception\<close> catches what derives from \<^verbatim>\<open>Exception\<close>;
  \<^verbatim>\<open>KeyboardInterrupt\<close> and \<^verbatim>\<open>SystemExit\<close> derive from \<^verbatim>\<open>BaseException\<close> only and
  pass through. The handler prints, removes the element directory, moves the backup into
  its place and raises the error again; an error of one of its own statements is raised
  in place of the first one.
\<close>

fun is_exception :: "error \<Rightarrow> bool" where
  "is_exception KeyboardInterrupt = False"
| "is_exception SystemExit = False"
| "is_exception _ = True"

definition restore_message :: string where
  "restore_message = ''[red]Error during upgrade, restoring backup...[/red]''"

definition restore_backup :: "env \<Rightarrow> error \<Rightarrow> fpath \<Rightarrow> filesystem \<Rightarrow> outcome" where
  "restore_backup ev e element_path fs =
     (case console_print ev restore_message of
        Some e' \<Rightarrow> Inl (e', fs)
      | None \<Rightarrow>
          (case os_call ev fs (Rmtree element_path) of
             Inl x \<Rightarrow> Inl x
           | Inr fs1 \<Rightarrow>
               (case os_call ev fs1 (Move (backup_path element_path) element_path) of
                  Inl x \<Rightarrow> Inl x
                | Inr fs2 \<Rightarrow> Inl (e, fs2))))"

definition apply_merged_files ::
  "env \<Rightarrow> filesystem \<Rightarrow> fpath \<Rightarrow> pyvalue \<Rightarrow> MergeConflict list
    \<Rightarrow> (string \<times> string \<times> MergeConflict list) list \<Rightarrow> fpath \<Rightarrow> outcome" where
  "apply_merged_files ev fs element_path merged_values values_conflicts converter_merges
       remote_version_path =
     and_then (create_backup fs element_path)
       (\<lambda>fs1. case try_block ev element_path merged_values values_conflicts converter_merges
                     remote_version_path fs1 of
            Inr fs2 \<Rightarrow> Inr fs2
          | Inl (e, fs2) \<Rightarrow>
              if is_exception e then restore_backup ev e element_path fs2 else Inl (e, fs2))"
text \<open>
  A small installation for the concrete runs: element \<^verbatim>\<open>stack/app\<close> with one values file,
  a leftover backup \<^verbatim>\<open>stack/.app.backup\<close> from an earlier run, no remote files, and
  collaborators that succeed. Then three variants: the dump is interrupted from the
  keyboard; the dump fails and the console cannot be written to; the removal of the backup
  at the end of the \<^verbatim>\<open>try\<close> block deletes the file in it and then fails.
\<close>

definition demo_fs :: filesystem where
  "demo_fs =
     [[''stack''] \<mapsto> Dir [''app'', ''.app.backup''],
      [''stack'', ''app''] \<mapsto> Dir [''values.yaml''],
      [''stack'', ''app'', ''values.yaml''] \<mapsto> File ''retries: 3'',
      [''stack'', ''.app.backup''] \<mapsto> Dir [''old''],
      [''stack'', ''.app.backup'', ''old''] \<mapsto> File ''x'']"

definition demo_env :: env where
  "demo_env =
     \<lparr>apply_resolution_to_values = (\<lambda>merged conflicts. Inr merged),
      ruamel_dump = (\<lambda>merged. Inr ''retries: 5''),
      str_value = (\<lambda>v. ''?''),
      conflicted_text = (\<lambda>content conflicts. Inr content),
      safe_load = (\<lambda>text. Inr (VMap [])),
      yaml_dump = (\<lambda>chart. Inr ''name: app''),
      console_print = (\<lambda>text. None),
      os_fault = (\<lambda>fs call. None)\<rparr>"






section \<open>Equality is an equivalence on well-formed values\<close>

lemma py_eq_seq_iff: "py_eq_seq xs ys = list_all2 py_eq xs ys"
  by (induction xs arbitrary: ys) (case_tac ys; simp)+

lemma py_eq_items_iff:
  "py_eq_items l r = (\<forall>(k, v) \<in> set l. \<exists>w. map_of r k = Some w \<and> py_eq v w)"
  by (induction l) (auto split: option.splits)

lemma py_eq_trans: "py_eq a b \<Longrightarrow> py_eq b c \<Longrightarrow> py_eq a c"
proof (induction a arbitrary: b c)
  case VNull
  then show ?case by (cases b; cases c; simp)
next
  case (VBool x)
  then show ?case by (cases b; cases c; simp split: if_splits)
next
  case (VInt x)
  then show ?case by (cases b; cases c; simp split: if_splits)
next
  case (VStr x)
  then show ?case by (cases b; cases c; simp)
next
  case (VSeq xs)
  from VSeq.prems obtain ys zs where b: "b = VSeq ys" and c: "c = VSeq zs"
    by (cases b; cases c; simp)
  from VSeq.prems have 1: "list_all2 py_eq xs ys" and 2: "list_all2 py_eq ys zs"
    by (simp_all add: b c py_eq_seq_iff)
  have "list_all2 py_eq xs zs"
    using 1 2 VSeq.IH
  proof (induction xs ys arbitrary: zs rule: list_all2_induct)
    case Nil
    then show ?case by simp
  next
    case (Cons x xs y ys)
    then show ?case by (cases zs) auto
  qed
  then show ?case by (simp add: b c py_eq_seq_iff)
next
  case (VMap l)
  from VMap.prems obtain m r where b: "b = VMap m" and c: "c = VMap r"
    by (cases b; cases c; simp)
  from VMap.prems have len: "length l = length r" by (simp add: b c)
  have "\<exists>u. map_of r k = Some u \<and> py_eq v u" if kv: "(k, v) \<in> set l" for k v
  proof -
    from VMap.prems(1) kv obtain w where w: "map_of m k = Some w" "py_eq v w"
      by (auto simp: b py_eq_items_iff)
    then have "(k, w) \<in> set m" by (simp add: map_of_SomeD)
    with VMap.prems(2) obtain u where u: "map_of r k = Some u" "py_eq w u"
      by (auto simp: b c py_eq_items_iff)
    have "py_eq v u" using VMap.IH[OF kv _ w(2) u(2)] by simp
    with u show ?thesis by blast
  qed
  then show ?case using len by (auto simp: c py_eq_items_iff)
qed



lemma py_eq_keys:
  assumes "distinct (map fst l)" "length l = length r" "py_eq_items l r"
  shows "set (map fst l) = set (map fst r)"
proof -
  have sub: "set (map fst l) \<subseteq> set (map fst r)"
    using assms(3) by (force simp: py_eq_items_iff dest: map_of_SomeD)
  have "card (set (map fst r)) \<le> length r" by (metis card_length length_map)
  also have "\<dots> = card (set (map fst l))"
    using distinct_card[OF assms(1)] assms(2) by simp
  finally show ?thesis using sub by (simp add: card_seteq)
qed

lemma py_eq_sym: "wf_value a \<Longrightarrow> wf_value b \<Longrightarrow> py_eq a b \<Longrightarrow> py_eq b a"
proof (induction a arbitrary: b)
  case VNull
  then show ?case by (cases b; simp)
next
  case (VBool x)
  then show ?case by (cases b; simp split: if_splits)
next
  case (VInt x)
  then show ?case by (cases b; simp split: if_splits)
next
  case (VStr x)
  then show ?case by (cases b; simp)
next
  case (VSeq xs)
  from VSeq.prems obtain ys where b: "b = VSeq ys" by (cases b; simp)
  from VSeq.prems have 1: "list_all2 py_eq xs ys" by (simp add: b py_eq_seq_iff)
  have "list_all2 py_eq ys xs"
    using 1 VSeq.IH VSeq.prems(1,2) unfolding b
  proof (induction xs ys rule: list_all2_induct)
    case Nil
    then show ?case by simp
  next
    case (Cons x xs y ys)
    then show ?case by auto
  qed
  then show ?case by (simp add: b py_eq_seq_iff)
next
  case (VMap l)
  from VMap.prems obtain r where b: "b = VMap r" by (cases b; simp)
  from VMap.prems have len: "length l = length r" and items: "py_eq_items l r"
    and dl: "distinct (map fst l)" and dr: "distinct (map fst r)"
    by (simp_all add: b)
  have keys: "set (map fst l) = set (map fst r)"
    by (rule py_eq_keys[OF dl len items])
  have "\<exists>v. map_of l k = Some v \<and> py_eq w v" if kw: "(k, w) \<in> set r" for k w
  proof -
    from kw keys have "k \<in> set (map fst l)" by force
    then obtain v where v: "(k, v) \<in> set l" by auto
    with items obtain w' where w': "map_of r k = Some w'" "py_eq v w'"
      by (auto simp: py_eq_items_iff)
    from dr kw have "map_of r k = Some w" by simp
    with w' have "py_eq v w" by simp
    moreover from VMap.prems v kw have "wf_value v" "wf_value w"
      by (auto simp: b list_all_iff)
    ultimately have "py_eq w v" using VMap.IH[OF v] by simp
    moreover from dl v have "map_of l k = Some v" by simp
    ultimately show ?thesis by blast
  qed
  then show ?case using len by (auto simp: b py_eq_items_iff)
qed

section \<open>Conflict construction\<close>

lemma merge_conflict_fields:
  "path (merge_conflict p b l r) = p"
  "base_value (merge_conflict p b l r) = b"
  "local_value (merge_conflict p b l r) = l"
  "remote_value (merge_conflict p b l r) = r"
  by (simp_all add: merge_conflict_def check_auto_resolvable_def)

lemma merge_conflict_unresolved:
  "\<not> py_eq b r \<Longrightarrow> \<not> py_eq b l \<Longrightarrow>
   merge_conflict p b l r =
     \<lparr>path = p, base_value = b, local_value = l, remote_value = r,
      resolution = None, auto_resolvable = False\<rparr>"
  by (simp add: merge_conflict_def check_auto_resolvable_def)

text \<open>
  C9, as the claim states it, fails: a conflict whose three values are all equal is in
  the claim's ``otherwise'' case, and the constructor makes it auto-resolvable with
  resolution \<^verbatim>\<open>keep_local\<close>, because \<^verbatim>\<open>_check_auto_resolvable\<close> tests only
  \<^verbatim>\<open>base == remote\<close> in its first branch. The merger builds such a conflict for
  base \<^verbatim>\<open>{k: null}\<close>, local \<^verbatim>\<open>{k: null}\<close>, remote \<^verbatim>\<open>{}\<close>.
\<close>

theorem C9_all_equal_counterexample:
  "\<not> (py_eq VNull VNull \<and> \<not> py_eq VNull VNull)
   \<and> auto_resolvable (merge_conflict ''k'' VNull VNull VNull)
   \<and> resolution (merge_conflict ''k'' VNull VNull VNull) = Some ''keep_local''
   \<and> merge (VMap [(''k'', VNull)]) (VMap [(''k'', VNull)]) (VMap [])
       = Inr (VMap [(''k'', VNull)], [merge_conflict ''k'' VNull VNull VNull])"
  by (simp add: merge_def deep_merge.simps all_keys_def key_path_def py_or_def
      merge_conflict_def check_auto_resolvable_def)

text \<open>
  C9, amended: a conflict constructed with (path, base, local, remote) keeps the four
  values; if base == remote, its resolution is \<^verbatim>\<open>keep_local\<close> and it is
  auto-resolvable, whether or not local differs from remote; otherwise, if base == local,
  its resolution is \<^verbatim>\<open>take_remote\<close> and it is auto-resolvable; otherwise it is not
  auto-resolvable and its resolution is \<^verbatim>\<open>None\<close>. So the claim's second rule holds as
  it is written on well-formed values (base == local and remote != local give
  \<^verbatim>\<open>take_remote\<close>), and every auto-resolvable conflict has a resolution at construction.
\<close>

theorem C9_auto_resolution:
  "(py_eq b r \<longrightarrow>
      resolution (merge_conflict p b l r) = Some ''keep_local''
      \<and> auto_resolvable (merge_conflict p b l r))
   \<and> (\<not> py_eq b r \<and> py_eq b l \<longrightarrow>
      resolution (merge_conflict p b l r) = Some ''take_remote''
      \<and> auto_resolvable (merge_conflict p b l r))
   \<and> (wf_value b \<and> wf_value r \<and> py_eq b l \<and> \<not> py_eq r l \<longrightarrow>
      resolution (merge_conflict p b l r) = Some ''take_remote''
      \<and> auto_resolvable (merge_conflict p b l r))
   \<and> (\<not> py_eq b r \<and> \<not> py_eq b l \<longrightarrow>
      resolution (merge_conflict p b l r) = None
      \<and> \<not> auto_resolvable (merge_conflict p b l r))
   \<and> (auto_resolvable (merge_conflict p b l r) \<longrightarrow>
      resolution (merge_conflict p b l r) \<noteq> None)
   \<and> path (merge_conflict p b l r) = p
   \<and> base_value (merge_conflict p b l r) = b
   \<and> local_value (merge_conflict p b l r) = l
   \<and> remote_value (merge_conflict p b l r) = r"
proof -
  have "\<not> py_eq b r" if "wf_value b" "wf_value r" "py_eq b l" "\<not> py_eq r l"
  proof
    assume "py_eq b r"
    with that(1,2) have "py_eq r b" by (simp add: py_eq_sym)
    with that(3) have "py_eq r l" by (rule py_eq_trans[rotated])
    with that(4) show False by simp
  qed
  then show ?thesis
    by (auto simp: merge_conflict_def check_auto_resolvable_def)
qed


theorem C9_auto_resolution_witness:
  "resolution (merge_conflict ''timeout'' (VInt 30) (VInt 60) (VInt 30)) = Some ''keep_local''
   \<and> auto_resolvable (merge_conflict ''timeout'' (VInt 30) (VInt 60) (VInt 30))
   \<and> resolution (merge_conflict ''timeout'' (VInt 30) (VInt 30) (VInt 60)) = Some ''take_remote''
   \<and> auto_resolvable (merge_conflict ''timeout'' (VInt 30) (VInt 30) (VInt 60))
   \<and> resolution (merge_conflict ''retries'' (VInt 3) (VInt 5) (VInt 10)) = None
   \<and> \<not> auto_resolvable (merge_conflict ''retries'' (VInt 3) (VInt 5) (VInt 10))"
  using C9_auto_resolution [of "VInt 30" "VInt 30" "''timeout''" "VInt 60"]
    C9_auto_resolution [of "VInt 30" "VInt 60" "''timeout''" "VInt 30"]
    C9_auto_resolution [of "VInt 3" "VInt 10" "''retries''" "VInt 5"]
  by simp

section \<open>Scalar and type-mismatched nodes\<close>

lemma deep_merge_scalar:
  "\<not> (is_dict L \<and> is_dict R) \<Longrightarrow> \<not> (is_list L \<and> is_list R) \<Longrightarrow>
   deep_merge B L R p cs = Inr (three_way B L R p cs)"
  by (cases L; cases R; simp add: deep_merge.simps three_way_def)

lemma y_deep_merge_scalar:
  "\<not> (is_dict L \<and> is_dict R) \<Longrightarrow> \<not> (is_list L \<and> is_list R) \<Longrightarrow>
   y_deep_merge it B L R p cs = Inr (three_way B L R p cs)"
  by (cases L; cases R; simp add: y_deep_merge.simps three_way_def)

text \<open>
  C1. At a node where local and remote are not both mappings and not both sequences,
  \<^verbatim>\<open>_deep_merge\<close>, of \<^verbatim>\<open>PreservingYAMLMerger\<close> and of \<^verbatim>\<open>YAMLMerger\<close> alike, returns
  local when local == remote; remote when base == local and base != remote; local when
  base == remote and base != local; and in every other case it returns local and appends
  exactly one conflict, at the node's path, that is not auto-resolvable. Scenario S3 is
  the last conjunct.
\<close>

theorem C1_scalar_three_way:
  assumes "wf_value B" and "wf_value L"
    and "\<not> (is_dict L \<and> is_dict R)" and "\<not> (is_list L \<and> is_list R)"
  shows "(py_eq L R \<longrightarrow>
            deep_merge B L R p cs = Inr (L, cs) \<and> y_deep_merge it B L R p cs = Inr (L, cs))
    \<and> (py_eq B L \<and> \<not> py_eq B R \<longrightarrow>
            deep_merge B L R p cs = Inr (R, cs) \<and> y_deep_merge it B L R p cs = Inr (R, cs))
    \<and> (py_eq B R \<and> \<not> py_eq B L \<longrightarrow>
            deep_merge B L R p cs = Inr (L, cs) \<and> y_deep_merge it B L R p cs = Inr (L, cs))
    \<and> (\<not> py_eq L R \<and> \<not> (py_eq B L \<and> \<not> py_eq B R) \<and> \<not> (py_eq B R \<and> \<not> py_eq B L) \<longrightarrow>
         deep_merge B L R p cs =
           Inr (L, cs @ [\<lparr>path = p, base_value = B, local_value = L, remote_value = R,
                          resolution = None, auto_resolvable = False\<rparr>])
         \<and> y_deep_merge it B L R p cs =
           Inr (L, cs @ [\<lparr>path = p, base_value = B, local_value = L, remote_value = R,
                          resolution = None, auto_resolvable = False\<rparr>]))
    \<and> merge (VMap [(''retries'', VInt 3)]) (VMap [(''retries'', VInt 5)])
          (VMap [(''retries'', VInt 10)])
        = Inr (VMap [(''retries'', VInt 5)],
               [\<lparr>path = ''retries'', base_value = VInt 3, local_value = VInt 5,
                 remote_value = VInt 10, resolution = None, auto_resolvable = False\<rparr>])"
proof -
  have dm: "deep_merge B L R p cs = Inr (three_way B L R p cs)"
    using assms(3,4) by (rule deep_merge_scalar)
  have ym: "y_deep_merge it B L R p cs = Inr (three_way B L R p cs)"
    using assms(3,4) by (rule y_deep_merge_scalar)
  have both: "py_eq L R" if "py_eq B L" "py_eq B R"
  proof -
    from assms(1,2) that(1) have "py_eq L B" by (rule py_eq_sym)
    then show ?thesis using that(2) by (rule py_eq_trans)
  qed
  have c1: "py_eq L R \<longrightarrow> three_way B L R p cs = (L, cs)"
    by (simp add: three_way_def)
  have c2: "py_eq B L \<and> \<not> py_eq B R \<longrightarrow> three_way B L R p cs = (R, cs)"
    using py_eq_trans[of B L R] by (auto simp: three_way_def)
  have c3: "py_eq B R \<and> \<not> py_eq B L \<longrightarrow> three_way B L R p cs = (L, cs)"
    by (auto simp: three_way_def)
  have c4: "\<not> py_eq L R \<and> \<not> (py_eq B L \<and> \<not> py_eq B R) \<and> \<not> (py_eq B R \<and> \<not> py_eq B L) \<longrightarrow>
         three_way B L R p cs =
           (L, cs @ [\<lparr>path = p, base_value = B, local_value = L, remote_value = R,
                      resolution = None, auto_resolvable = False\<rparr>])"
    using both by (auto simp: three_way_def merge_conflict_unresolved)
  have s3: "merge (VMap [(''retries'', VInt 3)]) (VMap [(''retries'', VInt 5)])
          (VMap [(''retries'', VInt 10)])
        = Inr (VMap [(''retries'', VInt 5)],
               [\<lparr>path = ''retries'', base_value = VInt 3, local_value = VInt 5,
                 remote_value = VInt 10, resolution = None, auto_resolvable = False\<rparr>])"
    by (simp add: merge_def deep_merge.simps all_keys_def key_path_def py_or_def three_way_def
        merge_conflict_def check_auto_resolvable_def)
  from c1 c2 c3 c4 s3 show ?thesis unfolding dm ym by blast
qed

theorem C1_scalar_three_way_witness:
  "deep_merge (VInt 3) (VInt 5) (VInt 10) ''retries'' []
     = Inr (VInt 5, [\<lparr>path = ''retries'', base_value = VInt 3, local_value = VInt 5,
                      remote_value = VInt 10, resolution = None, auto_resolvable = False\<rparr>])
   \<and> y_deep_merge in_order (VInt 3) (VInt 5) (VInt 10) ''retries'' []
     = Inr (VInt 5, [\<lparr>path = ''retries'', base_value = VInt 3, local_value = VInt 5,
                      remote_value = VInt 10, resolution = None, auto_resolvable = False\<rparr>])
   \<and> deep_merge (VInt 30) (VInt 30) (VStr ''1m'') ''timeout'' [] = Inr (VStr ''1m'', [])
   \<and> deep_merge (VInt 30) (VMap [(''s'', VInt 60)]) (VInt 30) ''timeout'' []
     = Inr (VMap [(''s'', VInt 60)], [])
   \<and> deep_merge VNull (VBool True) (VInt 1) ''flag'' [] = Inr (VBool True, [])"
  using C1_scalar_three_way [of "VInt 3" "VInt 5" "VInt 10" "''retries''" "[]" in_order]
    C1_scalar_three_way [of "VInt 30" "VInt 30" "VStr ''1m''" "''timeout''" "[]" in_order]
    C1_scalar_three_way [of "VInt 30" "VMap [(''s'', VInt 60)]" "VInt 30" "''timeout''" "[]" in_order]
    C1_scalar_three_way [of VNull "VBool True" "VInt 1" "''flag''" "[]" in_order]
  by simp

section \<open>Key order of merged mappings\<close>


































section \<open>Merging with an unchanged local side\<close>











































section \<open>Keys that only remote has\<close>

text \<open>
  C5 at a concrete input. Base \<^verbatim>\<open>{a: 1, b: 1}\<close>, local \<^verbatim>\<open>{b: 1}\<close> (local deleted
  \<^verbatim>\<open>a\<close>), remote \<^verbatim>\<open>{a: 2, b: 1}\<close>: the remote-only branch of
  \<^verbatim>\<open>PreservingYAMLMerger._merge_dicts\<close> stores \<^verbatim>\<open>remote['a']\<close> and never looks at base,
  so the key comes back with no conflict. With the sides exchanged (remote deleted
  \<^verbatim>\<open>a\<close>, local changed it) the local-only branch, which does test \<^verbatim>\<open>key in base\<close>,
  reports the conflict. On the first input \<^verbatim>\<open>YAMLMerger._merge_dicts\<close> reports the
  conflict and leaves the key out of the merged mapping.
\<close>

theorem C5_remote_only_key_no_conflict:
  "merge (VMap [(''a'', VInt 1), (''b'', VInt 1)]) (VMap [(''b'', VInt 1)])
         (VMap [(''a'', VInt 2), (''b'', VInt 1)])
     = Inr (VMap [(''b'', VInt 1), (''a'', VInt 2)], [])
   \<and> merge (VMap [(''a'', VInt 1), (''b'', VInt 1)]) (VMap [(''a'', VInt 2), (''b'', VInt 1)])
         (VMap [(''b'', VInt 1)])
     = Inr (VMap [(''a'', VInt 2), (''b'', VInt 1)],
            [\<lparr>path = ''a'', base_value = VInt 1, local_value = VInt 2, remote_value = VNull,
              resolution = None, auto_resolvable = False\<rparr>])
   \<and> y_merge in_order (VMap [(''a'', VInt 1), (''b'', VInt 1)]) (VMap [(''b'', VInt 1)])
         (VMap [(''a'', VInt 2), (''b'', VInt 1)])
     = Inr (VMap [(''b'', VInt 1)],
            [\<lparr>path = ''a'', base_value = VInt 1, local_value = VNull, remote_value = VInt 2,
              resolution = None, auto_resolvable = False\<rparr>])"
  by (simp add: merge_def deep_merge.simps all_keys_def key_path_def py_or_def
      merge_conflict_def check_auto_resolvable_def
      y_merge_def y_deep_merge.simps in_order_def union_keys_def three_way_def)

section \<open>Items the named-list merge passes over\<close>

lemma by_name_acc_result:
  "by_name_acc acc l = (if list_all name_ok l then Inr (projr (by_name_acc acc l)) else Inl TypeError)"
  by (induction l arbitrary: acc) (auto simp: name_ok_def)

lemma omitted_name_ok: "omitted_item x \<Longrightarrow> name_ok x"
  by (auto simp: omitted_item_def name_ok_def)

lemma by_name_omitted:
  assumes "omitted_item x"
  shows "(case by_name (xs @ x # ys) of Inl e \<Rightarrow> Inl e | Inr d \<Rightarrow> K)
       = (case by_name (xs @ ys) of Inl e \<Rightarrow> Inl e | Inr d \<Rightarrow> K)"
proof -
  have "list_all name_ok (xs @ x # ys) = list_all name_ok (xs @ ys)"
    using omitted_name_ok[OF assms] by simp
  then show ?thesis
    unfolding by_name_def
    by (subst by_name_acc_result, subst (2) by_name_acc_result) simp
qed

lemma named_loop_skip:
  "omitted_item x \<Longrightarrow> named_loop (x # ys) bbn rbn p seen merged cs = named_loop ys bbn rbn p seen merged cs"
  by (auto simp: omitted_item_def)

lemma named_loop_omitted:
  "omitted_item x \<Longrightarrow>
   named_loop (xs @ x # ys) bbn rbn p seen merged cs = named_loop (xs @ ys) bbn rbn p seen merged cs"
proof (induction xs arbitrary: seen merged cs)
  case Nil
  then show ?case by (simp add: named_loop_skip del: named_loop.simps)
next
  case (Cons a xs)
  then show ?case
    by (simp split: option.splits sum.splits prod.splits)
qed

lemma merge_named_lists_omitted:
  assumes "omitted_item x"
  shows "merge_named_lists base (xs @ x # ys) remote p cs = merge_named_lists base (xs @ ys) remote p cs"
  by (simp add: named_loop_omitted[OF assms] by_name_omitted[OF assms] split: sum.splits)

text \<open>
  C10. When local or remote is detected as a named list, \<^verbatim>\<open>_merge_lists\<close> hands over to
  \<^verbatim>\<open>_merge_named_lists\<close>, and a local item that is not a mapping, or whose name is
  \<^verbatim>\<open>None\<close> (also when the key is missing) or the empty string, changes nothing: the
  merged sequence, the conflicts and any error are those of the named merge of the local
  list without that item.
\<close>

theorem C10_omitted_local_item:
  assumes "is_named_list (xs @ x # ys) \<or> is_named_list remote" and "omitted_item x"
  shows "merge_lists base (xs @ x # ys) remote p cs
       = merge_named_lists base (xs @ ys) remote p cs"
  using assms(1) merge_named_lists_omitted[OF assms(2)] by (simp del: merge_named_lists.simps)

theorem C10_omitted_local_item_witness:
  "is_named_list [VMap [(''name'', VStr ''a''), (''level'', VStr ''low'')], VMap [(''name'', VStr ''c'')]]
   \<and> omitted_item (VStr ''stray'')
   \<and> omitted_item (VMap [(''name'', VNull), (''level'', VStr ''x'')])
   \<and> omitted_item (VMap [(''name'', VStr []), (''level'', VStr ''y'')])
   \<and> merge_lists (VSeq [])
        [VStr ''stray'', VMap [(''name'', VStr ''a''), (''level'', VStr ''low'')],
         VMap [(''name'', VNull), (''level'', VStr ''x'')],
         VMap [(''name'', VStr []), (''level'', VStr ''y'')]]
        [VMap [(''name'', VStr ''a''), (''level'', VStr ''low'')], VMap [(''name'', VStr ''c'')]]
        ''policies'' []
     = Inr (VSeq [VMap [(''name'', VStr ''a''), (''level'', VStr ''low'')],
                  VMap [(''name'', VStr ''c'')]], [])"
proof -
  let ?a = "VMap [(''name'', VStr ''a''), (''level'', VStr ''low'')]"
  let ?n = "VMap [(''name'', VNull), (''level'', VStr ''x'')]"
  let ?e = "VMap [(''name'', VStr []), (''level'', VStr ''y'')]"
  let ?r = "[?a, VMap [(''name'', VStr ''c'')]]"
  have nl: "is_named_list ?r" by (simp add: is_named_list_def has_name_def)
  have om: "omitted_item (VStr ''stray'')" "omitted_item ?n" "omitted_item ?e"
    by (simp_all add: omitted_item_def item_name_def get_name_def)
  have 1: "merge_lists (VSeq []) [VStr ''stray'', ?a, ?n, ?e] ?r ''policies'' []
      = merge_named_lists (VSeq []) [?a, ?n, ?e] ?r ''policies'' []"
    using C10_omitted_local_item[of "[]" "VStr ''stray''" "[?a, ?n, ?e]" ?r "VSeq []" "''policies''" "[]"]
      nl om(1) by (simp del: merge_lists.simps merge_named_lists.simps)
  have 2: "merge_named_lists (VSeq []) [?a, ?n, ?e] ?r ''policies'' []
      = Inr (VSeq [?a, VMap [(''name'', VStr ''c'')]], [])"
    by (simp add: by_name_def item_name_def get_name_def deep_merge.simps py_or_def)
  from 1 2 nl om show ?thesis by (simp del: merge_lists.simps merge_named_lists.simps)
qed

section \<open>Blocks of a templated text\<close>

text \<open>
  C7 at concrete inputs. The loop zips the base blocks with the local and remote blocks,
  and \<^verbatim>\<open>zip\<close> stops at the shortest sequence. With no base file (\<^verbatim>\<open>merge_helm_template\<close>
  passes the empty text) local \<^verbatim>\<open>a\<close> and remote \<^verbatim>\<open>b\<close> have one block each, the loop
  runs zero times, and the result is the empty text with no conflict. With base
  \<^verbatim>\<open>{{a}}\<close>, local \<^verbatim>\<open>{{a}}x\<close> and remote \<^verbatim>\<open>{{a}}y\<close>, index 1 is never visited. The
  guard \<^verbatim>\<open>i < len(base_blocks)\<close> in the loop body shows that a shorter base was meant to
  be handled. Where the loop does reach a conflict, the marker has single braces.
\<close>

theorem C7_blocks_beyond_base_dropped:
  "extract_blocks [] = []
   \<and> extract_blocks ''a'' = [(''static'', ''a'')]
   \<and> extract_blocks ''b'' = [(''static'', ''b'')]
   \<and> merge_template [] ''a'' ''b'' = ([], [])
   \<and> extract_blocks ''{{a}}x'' = [(''template'', ''{{a}}''), (''static'', ''x'')]
   \<and> extract_blocks ''{{a}}y'' = [(''template'', ''{{a}}''), (''static'', ''y'')]
   \<and> merge_template ''{{a}}'' ''{{a}}x'' ''{{a}}y'' = (''{{a}}'', [])
   \<and> merge_template ''x'' ''y'' ''z''
     = (conflict_marker ''y'' ''z'',
        [\<lparr>path = ''block_0'', base_value = VStr ''x'', local_value = VStr ''y'',
          remote_value = VStr ''z'', resolution = None, auto_resolvable = False\<rparr>])"
  by (simp add: merge_template_def extract_blocks_def match_directive_def strip_def
      is_space_def merge_conflict_def check_auto_resolvable_def digit_def)

section \<open>The try block writes inside the element directory\<close>








lemma not_under_self: "\<not> prefix E q \<Longrightarrow> q \<noteq> E @ x # rel"
  by auto








































lemma parent_differs: "P \<noteq> P @ a # rel"
  by simp






lemmas run_defs =
  apply_merged_files_def try_block_def write_merged_def write_values_def
  write_conflict_header_def process_converters_def copy_new_converters_def update_chart_def
  replace_tree_def restore_backup_def create_backup_def backup_path_def path_name_def
  path_exists_def is_dir_def rmtree_def copytree_def move_def graft_def add_entry_def
  del_entry_def write_text_def read_text_def mkdir_def and_then_def raised_def Let_def
  demo_fs_def demo_env_def conflict_header_def load_name_def local_names_def
  module_names_def unresolved_def merge_conflict_def check_auto_resolvable_def
  os_call_def damaged_def restore_message_def


section \<open>The conflict header\<close>

text \<open>
  C2, on the code. Building the header evaluates \<^verbatim>\<open>baseline.version\<close> first, and
  \<^verbatim>\<open>baseline\<close> is bound neither in \<^verbatim>\<open>apply_merged_files\<close> nor in the module: the list
  construction raises \<^verbatim>\<open>NameError\<close>. So whenever a values conflict is unresolved and the
  values file just written can be read back, the header step raises and nothing is
  written; \<^verbatim>\<open>apply_merged_files\<close> then rolls the element directory back and re-raises.
\<close>

theorem C2_conflict_header_raises:
  "conflict_header ev values_conflicts = Inl (NameError ''baseline'')
   \<and> (list_ex unresolved values_conflicts
        \<and> read_text fs (element_path @ [''values.yaml'']) = Inr content \<longrightarrow>
      write_conflict_header ev element_path values_conflicts fs = Inl (NameError ''baseline'', fs))"
  by (simp add: conflict_header_def load_name_def local_names_def module_names_def
      write_conflict_header_def)

theorem C2_conflict_header_raises_witness:
  "unresolved (merge_conflict ''retries'' (VInt 3) (VInt 5) (VInt 10))
   \<and> read_text demo_fs [''stack'', ''app'', ''values.yaml''] = Inr ''retries: 3''
   \<and> write_conflict_header demo_env [''stack'', ''app'']
         [merge_conflict ''retries'' (VInt 3) (VInt 5) (VInt 10)] demo_fs
       = Inl (NameError ''baseline'', demo_fs)
   \<and> (\<exists>fs'. apply_merged_files demo_env demo_fs [''stack'', ''app'']
           (VMap [(''retries'', VInt 5)])
           [merge_conflict ''retries'' (VInt 3) (VInt 5) (VInt 10)] [] [''tmp'', ''remote'']
         = Inl (NameError ''baseline'', fs')
       \<and> fs' [''stack'', ''app'', ''values.yaml''] = Some (File ''retries: 3''))"
proof -
  let ?c = "merge_conflict ''retries'' (VInt 3) (VInt 5) (VInt 10)"
  have u: "unresolved ?c"
    by (simp add: unresolved_def merge_conflict_def check_auto_resolvable_def)
  have r: "read_text demo_fs ([''stack'', ''app''] @ [''values.yaml'']) = Inr ''retries: 3''"
    by (simp add: read_text_def demo_fs_def)
  from C2_conflict_header_raises[of demo_env "[?c]" demo_fs "[''stack'', ''app'']" "''retries: 3''"]
    u r
  have h: "write_conflict_header demo_env [''stack'', ''app''] [?c] demo_fs
      = Inl (NameError ''baseline'', demo_fs)"
    by simp
  have a: "\<exists>fs'. apply_merged_files demo_env demo_fs [''stack'', ''app'']
           (VMap [(''retries'', VInt 5)]) [?c] [] [''tmp'', ''remote'']
         = Inl (NameError ''baseline'', fs')
       \<and> fs' [''stack'', ''app'', ''values.yaml''] = Some (File ''retries: 3'')"
    by (simp add: run_defs)
  from u r h a show ?thesis by simp
qed

section \<open>A leftover backup directory\<close>




end
